theory Spec2Isabelle
  imports Main
begin

section \<open>Background service view: data model\<close>

text \<open>
  The development follows \<^verbatim>\<open>front_end/resources/BackgroundServiceView.js\<close>.
  JavaScript strings are modelled as \<^typ>\<open>string\<close>, one list element per code unit;
  JavaScript numbers that are only passed through (the timestamp) are kept in a type
  variable, so nothing is assumed about floating point; the one number the view
  computes itself, a row count, is a \<^typ>\<open>nat\<close>.
\<close>

subsection \<open>String.prototype.substr\<close>

text \<open>
  The built-in \<^verbatim>\<open>substr(start, length)\<close> of the language: a negative start counts
  from the end, a missing length means "to the end", and the length is clamped to
  what is left of the string, a negative one giving the empty string.
\<close>

definition substr :: "string \<Rightarrow> int \<Rightarrow> int option \<Rightarrow> string" where
  "substr s start len =
     (let size = int (length s);
          intStart = (if start < 0 then max (size + start) 0 else start);
          intLength = (case len of None \<Rightarrow> size | Some l \<Rightarrow> l);
          resultLength = min (max intLength 0) (size - intStart)
      in if resultLength \<le> 0 then []
         else take (nat resultLength) (drop (nat intStart) s))"

subsection \<open>Protocol and collaborator data\<close>

text \<open>\<^verbatim>\<open>Protocol.BackgroundService.EventMetadata\<close>: a key and a value.\<close>

record eventMetadata =
  key :: string
  value_meta :: string

text \<open>\<^verbatim>\<open>Protocol.BackgroundService.BackgroundServiceEvent\<close>.\<close>

record 'n serviceEvent =
  timestamp :: 'n
  origin :: string
  serviceWorkerRegistrationId :: string
  service :: string
  eventName :: string
  instanceId :: string
  eventMetadata :: "eventMetadata list"

text \<open>\<^verbatim>\<open>Resources.BackgroundServiceModel.RecordingState\<close>.\<close>

record recordingState =
  serviceName_state :: string
  isRecording :: bool

text \<open>\<^verbatim>\<open>Common.Event\<close>: the handlers read only its \<^verbatim>\<open>data\<close>.\<close>

record 'a commonEvent =
  data :: 'a

text \<open>
  The fields of a service worker version that the view reads, and a registration
  with its \<^verbatim>\<open>versions\<close>, a JavaScript Map kept as an association list in
  insertion order (\<^verbatim>\<open>values().next().value\<close> is the value of its first pair).
\<close>

record serviceWorkerVersion =
  scriptURL :: string
  securityOrigin :: string

record serviceWorkerRegistration =
  versions :: "(string \<times> serviceWorkerVersion) list"

text \<open>
  Modelled from the spec: the model, \<^verbatim>\<open>Resources.BackgroundServiceModel\<close>, a
  collaborator whose code is missing. \<^verbatim>\<open>getEvents(serviceName)\<close> gives the "ordered
  sequence of ServiceEvent" buffered for a service; \<^verbatim>\<open>setRecording\<close> and
  \<^verbatim>\<open>clearEvents\<close> are intents the view issues, kept in a log in the order they
  are issued.
\<close>

datatype modelRequest = SetRecording bool string | ClearEvents string

record 'n backgroundServiceModel =
  events :: "string \<Rightarrow> 'n serviceEvent list"
  requests :: "modelRequest list"

definition getEvents :: "'n backgroundServiceModel \<Rightarrow> string \<Rightarrow> 'n serviceEvent list" where
  "getEvents m serviceName' = events m serviceName'"

definition setRecording ::
  "'n backgroundServiceModel \<Rightarrow> bool \<Rightarrow> string \<Rightarrow> 'n backgroundServiceModel" where
  "setRecording m shouldRecord serviceName' =
     m\<lparr>requests := requests m @ [SetRecording shouldRecord serviceName']\<rparr>"

text \<open>
  Modelled from the spec: \<^verbatim>\<open>clearEvents\<close> of the model, whose code is missing;
  "requests the model purge its stored events for this service".
\<close>

definition clearEvents :: "'n backgroundServiceModel \<Rightarrow> string \<Rightarrow> 'n backgroundServiceModel" where
  "clearEvents m serviceName' =
     m\<lparr>events := (events m)(serviceName' := []),
       requests := requests m @ [ClearEvents serviceName']\<rparr>"

subsection \<open>Rows\<close>

text \<open>\<^verbatim>\<open>Resources.BackgroundServiceView.EventData\<close>, the data of one row.\<close>

record eventData =
  id_data :: nat
  timestamp_data :: string
  origin_data :: string
  swSource :: string
  eventName_data :: string
  instanceId_data :: string

text \<open>\<^verbatim>\<open>Resources.BackgroundServiceView.EventDataNode\<close>: the row and its metadata.\<close>

record eventDataNode =
  data_node :: eventData
  eventMetadata_node :: "eventMetadata list"

subsection \<open>The view\<close>

text \<open>
  A constructed view: its bound service name, the model, what
  \<^verbatim>\<open>serviceWorkerManager.registrations()\<close> and
  \<^verbatim>\<open>securityOriginManager.securityOrigins()\<close> return at the moment, the toggled
  state of the record button, the checked state of the origin checkbox, and the
  children of the data grid's root node. The constructor creates the button and
  the checkbox before it returns (\<^verbatim>\<open>_setupToolbar\<close> has no \<^verbatim>\<open>await\<close>), so
  neither is null in a constructed view.
\<close>

record 'n view =
  serviceName :: string
  model :: "'n backgroundServiceModel"
  registrations :: "string \<rightharpoonup> serviceWorkerRegistration"
  securityOrigins :: "string list"
  recordButton_toggled :: bool
  originCheckbox_checked :: bool
  children :: "eventDataNode list"

section \<open>The view controller\<close>

definition toggleRecording :: "'n view \<Rightarrow> 'n view" where
  "toggleRecording v =
     v\<lparr>model := setRecording (model v) (\<not> recordButton_toggled v) (serviceName v)\<rparr>"

definition clearView :: "'n view \<Rightarrow> 'n view" where
  "clearView v = v\<lparr>children := []\<rparr>"

definition deleteEvents :: "'n view \<Rightarrow> 'n view" where
  "deleteEvents v = clearView (v\<lparr>model := clearEvents (model v) (serviceName v)\<rparr>)"

definition onRecordingStateChanged :: "'n view \<Rightarrow> recordingState commonEvent \<Rightarrow> 'n view" where
  "onRecordingStateChanged v event =
     (let state = data event
      in if serviceName_state state \<noteq> serviceName v then v
         else v\<lparr>recordButton_toggled := isRecording state\<rparr>)"

definition acceptEvent :: "'n view \<Rightarrow> 'n serviceEvent \<Rightarrow> bool" where
  "acceptEvent v event =
     (if service event \<noteq> serviceName v then False
      else if originCheckbox_checked v then True
      else (let origin' = substr (origin event) 0 (Some (int (length (origin event)) - 1))
            in origin' \<in> set (securityOrigins v)))"

text \<open>
  \<^verbatim>\<open>UI.formatTimestamp\<close> belongs to the toolkit and is a parameter; the number
  type supplies the product with 1000.
\<close>

definition createEventData ::
  "('n::{times,numeral} \<Rightarrow> bool \<Rightarrow> string) \<Rightarrow> 'n view \<Rightarrow> 'n serviceEvent \<Rightarrow> eventData" where
  "createEventData formatTimestamp v serviceEvent =
     (let registrations' = registrations v (serviceWorkerRegistrationId serviceEvent);
          swSource' =
            (case registrations' of
               None \<Rightarrow> []
             | Some reg \<Rightarrow>
                 (case versions reg of
                    [] \<Rightarrow> []
                  | (_, version) # _ \<Rightarrow>
                      substr (scriptURL version) (int (length (securityOrigin version))) None))
      in \<lparr>id_data = length (children v),
          timestamp_data = formatTimestamp (timestamp serviceEvent * 1000) True,
          origin_data = origin serviceEvent,
          swSource = swSource',
          eventName_data = eventName serviceEvent,
          instanceId_data = instanceId serviceEvent\<rparr>)"

definition addEvent ::
  "('n::{times,numeral} \<Rightarrow> bool \<Rightarrow> string) \<Rightarrow> 'n view \<Rightarrow> 'n serviceEvent \<Rightarrow> 'n view" where
  "addEvent formatTimestamp v serviceEvent =
     (let data' = createEventData formatTimestamp v serviceEvent;
          dataNode = \<lparr>data_node = data', eventMetadata_node = eventMetadata serviceEvent\<rparr>
      in v\<lparr>children := children v @ [dataNode]\<rparr>)"

text \<open>The loop of \<^verbatim>\<open>_refreshView\<close> over the accepted events.\<close>

fun addEvents ::
  "('n::{times,numeral} \<Rightarrow> bool \<Rightarrow> string) \<Rightarrow> 'n view \<Rightarrow> 'n serviceEvent list \<Rightarrow> 'n view" where
  "addEvents formatTimestamp v [] = v"
| "addEvents formatTimestamp v (event # rest) =
     addEvents formatTimestamp (addEvent formatTimestamp v event) rest"

definition refreshView :: "('n::{times,numeral} \<Rightarrow> bool \<Rightarrow> string) \<Rightarrow> 'n view \<Rightarrow> 'n view" where
  "refreshView formatTimestamp v =
     (let v' = clearView v;
          events' = filter (acceptEvent v') (getEvents (model v') (serviceName v'))
      in addEvents formatTimestamp v' events')"

definition onEventReceived ::
  "('n::{times,numeral} \<Rightarrow> bool \<Rightarrow> string) \<Rightarrow> 'n view \<Rightarrow> 'n serviceEvent commonEvent \<Rightarrow> 'n view" where
  "onEventReceived formatTimestamp v event =
     (let serviceEvent = data event
      in if \<not> acceptEvent v serviceEvent then v
         else addEvent formatTimestamp v serviceEvent)"

definition onOriginChanged :: "('n::{times,numeral} \<Rightarrow> bool \<Rightarrow> string) \<Rightarrow> 'n view \<Rightarrow> 'n view" where
  "onOriginChanged formatTimestamp v =
     (if originCheckbox_checked v then v else refreshView formatTimestamp v)"

text \<open>
  The listeners registered by the constructor and by \<^verbatim>\<open>_setupToolbar\<close>: each
  notification the view can receive, and the handler it runs. The origin checkbox
  carries the checked state the browser has given it when its listener runs.
\<close>

datatype 'n notification =
    RecordButtonClick
  | RefreshButtonClick
  | ClearButtonClick
  | DeleteButtonClick
  | OriginCheckboxClick bool
  | RecordingStateChanged "recordingState commonEvent"
  | BackgroundServiceEventReceived "'n serviceEvent commonEvent"
  | MainSecurityOriginChanged

fun dispatch ::
  "('n::{times,numeral} \<Rightarrow> bool \<Rightarrow> string) \<Rightarrow> 'n view \<Rightarrow> 'n notification \<Rightarrow> 'n view" where
  "dispatch formatTimestamp v RecordButtonClick = toggleRecording v"
| "dispatch formatTimestamp v RefreshButtonClick = refreshView formatTimestamp v"
| "dispatch formatTimestamp v ClearButtonClick = clearView v"
| "dispatch formatTimestamp v DeleteButtonClick = deleteEvents v"
| "dispatch formatTimestamp v (OriginCheckboxClick checked) =
     refreshView formatTimestamp (v\<lparr>originCheckbox_checked := checked\<rparr>)"
| "dispatch formatTimestamp v (RecordingStateChanged event) = onRecordingStateChanged v event"
| "dispatch formatTimestamp v (BackgroundServiceEventReceived event) =
     onEventReceived formatTimestamp v event"
| "dispatch formatTimestamp v MainSecurityOriginChanged = onOriginChanged formatTimestamp v"

section \<open>The row detail popover\<close>

text \<open>
  The part of the DOM the popover builder touches: an element has a tag, a class and
  child nodes, and a child is a text node or an element. The toolkit's
  \<^verbatim>\<open>createElementWithClass\<close> makes an element with no children. Setting
  \<^verbatim>\<open>textContent\<close> replaces the children by one text node (by none for the empty
  string); reading it concatenates the text of all descendants.
\<close>

datatype element = Element (tagName: string) (className: string) (childNodes: "node list")
  and node = TextNode string | ElementNode element

definition createElementWithClass :: "string \<Rightarrow> string \<Rightarrow> element" where
  "createElementWithClass tag cls = Element tag cls []"

fun set_textContent :: "element \<Rightarrow> string \<Rightarrow> element" where
  "set_textContent (Element tag cls _) s = Element tag cls (if s = [] then [] else [TextNode s])"

fun appendChild :: "element \<Rightarrow> element \<Rightarrow> element" where
  "appendChild (Element tag cls nodes) child = Element tag cls (nodes @ [ElementNode child])"

fun textContent :: "element \<Rightarrow> string"
  and textContent_node :: "node \<Rightarrow> string"
  and textContent_nodes :: "node list \<Rightarrow> string" where
  "textContent (Element tag cls nodes) = textContent_nodes nodes"
| "textContent_node (TextNode s) = s"
| "textContent_node (ElementNode e) = textContent e"
| "textContent_nodes [] = []"
| "textContent_nodes (n # ns) = textContent_node n @ textContent_nodes ns"

text \<open>
  The triggering DOM event, with the two things the builder reads: its type and
  the result of \<^verbatim>\<open>target.boxInWindow()\<close>.
\<close>

record 'b domEvent =
  type_event :: string
  target_boxInWindow :: 'b

text \<open>
  \<^verbatim>\<open>UI.PopoverRequest\<close>: the anchor box and the callback, which is given the
  popover's content element and returns it updated, with the value its promise
  resolves to.
\<close>

record 'b popoverRequest =
  box :: 'b
  show_popover :: "element \<Rightarrow> element \<times> bool"

text \<open>The loop of \<^verbatim>\<open>_createPopover\<close> over the metadata.\<close>

fun appendEntries :: "element \<Rightarrow> eventMetadata list \<Rightarrow> element" where
  "appendEntries container [] = container"
| "appendEntries container (entry # rest) =
     (let entryDiv = createElementWithClass ''div'' ''background-service-metadata-entry'';
          key' = set_textContent
                   (createElementWithClass ''label'' ''background-service-metadata-key'')
                   (key entry @ '': '');
          value' = set_textContent
                     (createElementWithClass ''label'' ''background-service-metadata-value'')
                     (value_meta entry);
          entryDiv = appendChild entryDiv key';
          entryDiv = appendChild entryDiv value'
      in appendEntries (appendChild container entryDiv) rest)"

text \<open>\<^verbatim>\<open>UI.appendStyle\<close> belongs to the toolkit and is a parameter.\<close>

definition createPopover ::
  "(element \<Rightarrow> string \<Rightarrow> element) \<Rightarrow> eventDataNode \<Rightarrow> 'b domEvent \<Rightarrow> 'b popoverRequest option" where
  "createPopover appendStyle self event =
     (if type_event event \<noteq> ''mousedown'' then None
      else
        (let container = createElementWithClass ''div'' ''background-service-popover-container'';
             container = appendStyle container ''resources/backgroundServiceView.css'';
             container =
               (if length (eventMetadata_node self) = 0
                then appendChild container
                       (set_textContent
                          (createElementWithClass ''div'' ''background-service-metadata-entry'')
                          ''There is no metadata for this event'')
                else container);
             container = appendEntries container (eventMetadata_node self)
         in Some \<lparr>box = target_boxInWindow event,
                  show_popover = (\<lambda>contentElement. (appendChild contentElement container, True))\<rparr>))"

section \<open>Example data\<close>

text \<open>
  The event of the specification's examples, a registration for it, and a view
  bound to its service whose only active origin is the event's.
\<close>

definition example_event :: "int serviceEvent" where
  "example_event =
     \<lparr>timestamp = 5, origin = ''https://a.com/'', serviceWorkerRegistrationId = ''7'',
      service = ''push'', eventName = ''push-received'', instanceId = ''1'',
      eventMetadata = [\<lparr>key = ''Tag'', value_meta = ''news''\<rparr>]\<rparr>"

definition example_other :: "int serviceEvent" where
  "example_other =
     \<lparr>timestamp = 6, origin = ''https://b.com/'', serviceWorkerRegistrationId = ''8'',
      service = ''push'', eventName = ''push-received'', instanceId = ''2'',
      eventMetadata = []\<rparr>"

definition example_view :: "int view" where
  "example_view =
     \<lparr>serviceName = ''push'',
      model = \<lparr>events = (\<lambda>s. if s = ''push'' then [example_event, example_other, example_event]
                                else []),
               requests = []\<rparr>,
      registrations =
        [''7'' \<mapsto> \<lparr>versions = [(''0'', \<lparr>scriptURL = ''https://a.com/sw.js'',
                                        securityOrigin = ''https://a.com''\<rparr>)]\<rparr>],
      securityOrigins = [''https://a.com''],
      recordButton_toggled = False,
      originCheckbox_checked = False,
      children = []\<rparr>"

definition example_formatTimestamp :: "int \<Rightarrow> bool \<Rightarrow> string" where
  "example_formatTimestamp t full = (if full then ''full'' else ''short'')"

definition example_appendStyle :: "element \<Rightarrow> string \<Rightarrow> element" where
  "example_appendStyle e cssFile = appendChild e (Element ''style'' [] [])"

definition example_node :: eventDataNode where
  "example_node =
     \<lparr>data_node = \<lparr>id_data = 0, timestamp_data = ''full'', origin_data = ''https://a.com/'',
                   swSource = ''/sw.js'', eventName_data = ''push-received'',
                   instanceId_data = ''1''\<rparr>,
      eventMetadata_node = [\<lparr>key = ''Tag'', value_meta = ''news''\<rparr>]\<rparr>"

text \<open>
  The example view after the active origin has changed to another one: the table
  still shows two rows of the earlier origin.
\<close>

definition example_stale :: "int view" where
  "example_stale =
     example_view\<lparr>securityOrigins := [''https://b.com''],
                  children := [example_node, example_node]\<rparr>"

section \<open>Filtering\<close>

lemma substr_prefix: "substr s 0 (Some (int (length s) - 1)) = butlast s"
  by (cases "s = []") (simp_all add: substr_def Let_def butlast_conv_take nat_diff_distrib')

text \<open>
  C1. An event of another service is rejected; an event of the bound service is
  accepted when the origin checkbox is checked, and otherwise exactly when its origin
  without its last character is one of the active security origins.
\<close>

theorem acceptEvent_spec:
  "acceptEvent v e =
     (if service e \<noteq> serviceName v then False
      else if originCheckbox_checked v then True
      else butlast (origin e) \<in> set (securityOrigins v))"
  by (simp add: acceptEvent_def substr_prefix)

section \<open>Rebuilding the table\<close>

lemma upt_add_Cons: "[n..<n + length (x # xs)] = n # [Suc n..<Suc n + length xs]"
  using upt_conv_Cons [of n "n + Suc (length xs)"] by simp

lemma map_zip_upt_fst: "map (\<lambda>(i, e). f i) (zip [n..<n + length xs] xs) = map f [n..<n + length xs]"
proof (induction xs arbitrary: n)
  case Nil
  show ?case by simp
next
  case (Cons x xs)
  show ?case
    unfolding upt_add_Cons using Cons.IH [of "Suc n"] by simp
qed

lemma map_zip_upt_snd: "map (\<lambda>(i, e). g e) (zip [n..<n + length xs] xs) = map g xs"
proof (induction xs arbitrary: n)
  case Nil
  show ?case by simp
next
  case (Cons x xs)
  show ?case
    unfolding upt_add_Cons using Cons.IH [of "Suc n"] by simp
qed

lemma addEvent_children:
  "children (addEvent fmt v e) =
     children v @ [\<lparr>data_node = createEventData fmt v e, eventMetadata_node = eventMetadata e\<rparr>]"
  by (simp add: addEvent_def Let_def)

lemma addEvent_frame: "addEvent fmt v e = v\<lparr>children := children (addEvent fmt v e)\<rparr>"
  by (simp add: addEvent_def Let_def)

lemma createEventData_children:
  "createEventData fmt (v\<lparr>children := cs\<rparr>) e = (createEventData fmt v e)\<lparr>id_data := length cs\<rparr>"
  by (simp add: createEventData_def Let_def)

lemma createEventData_id: "id_data (createEventData fmt v e) = length (children v)"
  by (simp add: createEventData_def Let_def)

lemma addEvents_frame: "addEvents fmt v es = v\<lparr>children := children (addEvents fmt v es)\<rparr>"
proof (induction es arbitrary: v)
  case Nil
  show ?case by simp
next
  case (Cons e es)
  have "addEvents fmt (addEvent fmt v e) es =
        (addEvent fmt v e)\<lparr>children := children (addEvents fmt (addEvent fmt v e) es)\<rparr>"
    by (rule Cons.IH)
  also have "\<dots> = v\<lparr>children := children (addEvents fmt (addEvent fmt v e) es)\<rparr>"
    by (subst addEvent_frame) simp
  finally show ?case by simp
qed

lemma addEvents_children:
  "children (addEvents fmt v es) =
     children v @
     map (\<lambda>(i, e). \<lparr>data_node = (createEventData fmt v e)\<lparr>id_data := i\<rparr>,
                      eventMetadata_node = eventMetadata e\<rparr>)
         (zip [length (children v)..<length (children v) + length es] es)"
proof (induction es arbitrary: v)
  case Nil
  show ?case by simp
next
  case (Cons e es)
  let ?n = "length (children v)"
  let ?v' = "addEvent fmt v e"
  have v': "?v' = v\<lparr>children := children ?v'\<rparr>" by (rule addEvent_frame)
  have len: "length (children ?v') = Suc ?n" by (simp add: addEvent_children)
  have ced: "\<And>i x. (createEventData fmt ?v' x)\<lparr>id_data := i\<rparr> = (createEventData fmt v x)\<lparr>id_data := i\<rparr>"
    by (subst v') (simp add: createEventData_children)
  have self: "(createEventData fmt v e)\<lparr>id_data := ?n\<rparr> = createEventData fmt v e"
    by (simp add: createEventData_def Let_def)
  have upt: "[?n..<?n + length (e # es)] = ?n # [Suc ?n..<Suc ?n + length es]"
    by (rule upt_add_Cons)
  show ?case
    unfolding addEvents.simps Cons.IH [of ?v'] len ced upt
    by (simp add: addEvent_children self)
qed

lemma clearView_refreshView: "clearView (refreshView fmt v) = clearView v"
proof -
  have "refreshView fmt v = (clearView v)\<lparr>children := children (refreshView fmt v)\<rparr>"
    unfolding refreshView_def Let_def by (rule addEvents_frame)
  then have "clearView (refreshView fmt v) = clearView ((clearView v)\<lparr>children := children (refreshView fmt v)\<rparr>)"
    by simp
  then show ?thesis by (simp add: clearView_def)
qed

lemma refreshView_twice:
  "refreshView fmt (refreshView fmt v) = refreshView fmt v"
proof -
  have "refreshView fmt (refreshView fmt v) =
        addEvents fmt (clearView (refreshView fmt v))
          (filter (acceptEvent (clearView (refreshView fmt v)))
             (getEvents (model (clearView (refreshView fmt v))) (serviceName (clearView (refreshView fmt v)))))"
    by (simp add: refreshView_def [of fmt "refreshView fmt v"] Let_def)
  also have "\<dots> = refreshView fmt v"
    unfolding clearView_refreshView by (simp add: refreshView_def Let_def)
  finally show ?thesis .
qed


lemma refreshView_children:
  "children (refreshView fmt v) =
     map (\<lambda>(i, e). \<lparr>data_node = (createEventData fmt (clearView v) e)\<lparr>id_data := i\<rparr>,
                      eventMetadata_node = eventMetadata e\<rparr>)
         (zip [0..<0 + length (filter (acceptEvent v) (getEvents (model v) (serviceName v)))]
              (filter (acceptEvent v) (getEvents (model v) (serviceName v))))"
proof -
  have acc: "acceptEvent (clearView v) = acceptEvent v"
    by (rule ext) (simp add: acceptEvent_def clearView_def)
  have "children (refreshView fmt v) =
        children (addEvents fmt (clearView v)
          (filter (acceptEvent v) (getEvents (model v) (serviceName v))))"
    by (simp add: refreshView_def Let_def acc) (simp add: clearView_def)
  then show ?thesis
    by (simp add: addEvents_children) (simp add: clearView_def)
qed

text \<open>
  C2. Refresh is idempotent: with the model's buffer, the filter state and the active
  origins as they are, a second refresh leaves the same rows as the first, the same
  number of them and the same data (id, timestamp, origin, swSource, eventName,
  instanceId) at each position.
\<close>

theorem refreshView_idempotent:
  "children (refreshView fmt (refreshView fmt v)) = children (refreshView fmt v) \<and>
   length (children (refreshView fmt (refreshView fmt v))) = length (children (refreshView fmt v)) \<and>
   map data_node (children (refreshView fmt (refreshView fmt v))) =
     map data_node (children (refreshView fmt v))"
  by (simp add: refreshView_twice)

text \<open>
  C3. After a refresh that accepts n events of the model's buffer the table has n
  rows, in the order of the buffer, and their ids are 0, 1, ..., n-1.
\<close>

theorem refreshView_rows:
  "let accepted = filter (acceptEvent v) (getEvents (model v) (serviceName v));
       rows = children (refreshView fmt v)
   in length rows = length accepted \<and>
      map (id_data \<circ> data_node) rows = [0..<length accepted] \<and>
      map (timestamp_data \<circ> data_node) rows = map (\<lambda>e. fmt (timestamp e * 1000) True) accepted \<and>
      map (origin_data \<circ> data_node) rows = map origin accepted \<and>
      map (eventName_data \<circ> data_node) rows = map eventName accepted \<and>
      map (instanceId_data \<circ> data_node) rows = map instanceId accepted \<and>
      map eventMetadata_node rows = map eventMetadata accepted"
proof -
  define accepted where "accepted = filter (acceptEvent v) (getEvents (model v) (serviceName v))"
  have rows: "children (refreshView fmt v) =
     map (\<lambda>(i, e). \<lparr>data_node = (createEventData fmt (clearView v) e)\<lparr>id_data := i\<rparr>,
                      eventMetadata_node = eventMetadata e\<rparr>)
         (zip [0..<0 + length accepted] accepted)"
    unfolding accepted_def by (rule refreshView_children)
  have 1: "length (children (refreshView fmt v)) = length accepted"
    by (simp add: rows)
  have 2: "map (id_data \<circ> data_node) (children (refreshView fmt v)) = [0..<length accepted]"
    using map_zip_upt_fst [of "\<lambda>i. i" 0 accepted] by (simp add: rows comp_def case_prod_unfold)
  have 3: "map (timestamp_data \<circ> data_node) (children (refreshView fmt v)) =
           map (\<lambda>e. fmt (timestamp e * 1000) True) accepted"
    using map_zip_upt_snd [of "\<lambda>e. fmt (timestamp e * 1000) True" 0 accepted]
    by (simp add: rows comp_def case_prod_unfold createEventData_def Let_def)
  have 4: "map (origin_data \<circ> data_node) (children (refreshView fmt v)) = map origin accepted"
    using map_zip_upt_snd [of origin 0 accepted]
    by (simp add: rows comp_def case_prod_unfold createEventData_def Let_def)
  have 5: "map (eventName_data \<circ> data_node) (children (refreshView fmt v)) = map eventName accepted"
    using map_zip_upt_snd [of eventName 0 accepted]
    by (simp add: rows comp_def case_prod_unfold createEventData_def Let_def)
  have 6: "map (instanceId_data \<circ> data_node) (children (refreshView fmt v)) = map instanceId accepted"
    using map_zip_upt_snd [of instanceId 0 accepted]
    by (simp add: rows comp_def case_prod_unfold createEventData_def Let_def)
  have 7: "map eventMetadata_node (children (refreshView fmt v)) = map eventMetadata accepted"
    using map_zip_upt_snd [of eventMetadata 0 accepted]
    by (simp add: rows comp_def case_prod_unfold)
  show ?thesis
    unfolding Let_def accepted_def [symmetric] using 1 2 3 4 5 6 7 by simp
qed

section \<open>Facts about the example data\<close>

lemma example_event_accepted: "acceptEvent example_view example_event"
  by (simp add: acceptEvent_def example_view_def example_event_def substr_def Let_def)

lemma example_other_rejected: "\<not> acceptEvent example_view example_other"
  by (simp add: acceptEvent_def example_view_def example_other_def substr_def Let_def)

lemma example_unchecked: "\<not> originCheckbox_checked example_view"
  by (simp add: example_view_def)

lemma example_refresh_origins:
  "map (origin_data \<circ> data_node) (children (refreshView example_formatTimestamp example_view)) =
     [''https://a.com/'', ''https://a.com/'']"
  using refreshView_children [of example_formatTimestamp example_view]
    example_event_accepted example_other_rejected
  by (simp add: getEvents_def createEventData_def Let_def)
     (simp add: example_view_def example_event_def)

section \<open>Filtering never fails\<close>

text \<open>
  C10. The filter is defined for every origin string. For an event of the bound
  service, with the origin checkbox unchecked, the last character of the origin is
  removed whatever it is, and an origin that is empty or has one character is looked
  up as the empty string: \<^verbatim>\<open>substr\<close> with the length -1 gives the empty string,
  not an error.
\<close>

theorem acceptEvent_total:
  assumes "service e = serviceName v" and "\<not> originCheckbox_checked v"
  shows "acceptEvent v e = (butlast (origin e) \<in> set (securityOrigins v)) \<and>
         (\<forall>s c. origin e = s @ [c] \<longrightarrow> acceptEvent v e = (s \<in> set (securityOrigins v))) \<and>
         (length (origin e) \<le> 1 \<longrightarrow> acceptEvent v e = ([] \<in> set (securityOrigins v))) \<and>
         substr [] 0 (Some (int (length ([] :: string)) - 1)) = []"
proof -
  have a: "acceptEvent v e = (butlast (origin e) \<in> set (securityOrigins v))"
    using assms by (simp add: acceptEvent_def substr_prefix)
  have b: "length (origin e) \<le> 1 \<Longrightarrow> butlast (origin e) = []"
    by (cases "origin e") auto
  show ?thesis using a b by (auto simp: substr_def)
qed

theorem acceptEvent_total_witness:
  "service (example_event\<lparr>origin := ''''\<rparr>) = serviceName (example_view\<lparr>securityOrigins := ['''']\<rparr>) \<and>
   \<not> originCheckbox_checked (example_view\<lparr>securityOrigins := ['''']\<rparr>) \<and>
   length (origin (example_event\<lparr>origin := ''''\<rparr>)) \<le> 1 \<and>
   acceptEvent (example_view\<lparr>securityOrigins := ['''']\<rparr>) (example_event\<lparr>origin := ''''\<rparr>) \<and>
   service (example_event\<lparr>origin := ''https://a.comX''\<rparr>) = serviceName example_view \<and>
   origin (example_event\<lparr>origin := ''https://a.comX''\<rparr>) = ''https://a.com'' @ ''X'' \<and>
   acceptEvent example_view (example_event\<lparr>origin := ''https://a.comX''\<rparr>)"
proof -
  let ?v = "example_view\<lparr>securityOrigins := ['''']\<rparr>"
  let ?e = "example_event\<lparr>origin := ''''\<rparr>"
  let ?e' = "example_event\<lparr>origin := ''https://a.comX''\<rparr>"
  have s1: "service ?e = serviceName ?v" by (simp add: example_view_def example_event_def)
  have c1: "\<not> originCheckbox_checked ?v" by (simp add: example_view_def)
  have l1: "length (origin ?e) \<le> 1" by simp
  have s2: "service ?e' = serviceName example_view" by (simp add: example_view_def example_event_def)
  have o2: "origin ?e' = ''https://a.com'' @ ''X''" by simp
  from acceptEvent_total [OF s1 c1] l1 have "acceptEvent ?v ?e = ([] \<in> set (securityOrigins ?v))"
    by blast
  then have a1: "acceptEvent ?v ?e" by simp
  from acceptEvent_total [OF s2 example_unchecked] o2
  have "acceptEvent example_view ?e' = (''https://a.com'' \<in> set (securityOrigins example_view))"
    by blast
  then have a2: "acceptEvent example_view ?e'" by (simp add: example_view_def)
  show ?thesis using s1 c1 l1 a1 s2 o2 a2 by (simp only: simp_thms)
qed

section \<open>Row construction\<close>

lemma substr_suffix: "substr s (int k) None = drop k s"
  by (cases "k < length s") (simp_all add: substr_def Let_def)

text \<open>
  C4. The service worker source of a row is empty when the registration table has
  no entry for the event's registration id, or the entry has no version; otherwise it
  is the script URL of a version of the registration (the first one) without its
  first k characters, k being the length of that version's security origin.
\<close>

theorem createEventData_swSource:
  "(registrations v (serviceWorkerRegistrationId e) = None \<longrightarrow>
      swSource (createEventData fmt v e) = []) \<and>
   (\<forall>reg. registrations v (serviceWorkerRegistrationId e) = Some reg \<and> versions reg = [] \<longrightarrow>
      swSource (createEventData fmt v e) = []) \<and>
   (\<forall>reg. registrations v (serviceWorkerRegistrationId e) = Some reg \<and> versions reg \<noteq> [] \<longrightarrow>
      (\<exists>version \<in> snd ` set (versions reg).
         swSource (createEventData fmt v e) =
           drop (length (securityOrigin version)) (scriptURL version)) \<and>
      swSource (createEventData fmt v e) =
        drop (length (securityOrigin (snd (hd (versions reg)))))
          (scriptURL (snd (hd (versions reg)))))"
  by (auto simp: createEventData_def Let_def substr_suffix split: option.splits list.splits)

theorem createEventData_swSource_witness:
  "registrations example_view (serviceWorkerRegistrationId example_event) =
     Some \<lparr>versions = [(''0'', \<lparr>scriptURL = ''https://a.com/sw.js'',
                                  securityOrigin = ''https://a.com''\<rparr>)]\<rparr> \<and>
   swSource (createEventData example_formatTimestamp example_view example_event) = ''/sw.js'' \<and>
   registrations example_view (serviceWorkerRegistrationId example_other) = None \<and>
   swSource (createEventData example_formatTimestamp example_view example_other) = ''''"
proof -
  let ?reg = "\<lparr>versions = [(''0'', \<lparr>scriptURL = ''https://a.com/sw.js'',
                                  securityOrigin = ''https://a.com''\<rparr>)]\<rparr>"
  have 1: "registrations example_view (serviceWorkerRegistrationId example_event) = Some ?reg"
    by (simp add: example_view_def example_event_def)
  have 2: "registrations example_view (serviceWorkerRegistrationId example_other) = None"
    by (simp add: example_view_def example_other_def)
  have 3: "versions ?reg \<noteq> []" by simp
  from createEventData_swSource [of example_view example_event example_formatTimestamp] 1 3
  have "swSource (createEventData example_formatTimestamp example_view example_event) =
        drop (length (securityOrigin (snd (hd (versions ?reg))))) (scriptURL (snd (hd (versions ?reg))))"
    by blast
  then have 4: "swSource (createEventData example_formatTimestamp example_view example_event) = ''/sw.js''"
    by simp
  from createEventData_swSource [of example_view example_other example_formatTimestamp] 2
  have 5: "swSource (createEventData example_formatTimestamp example_view example_other) = ''''"
    by blast
  from 1 2 4 5 show ?thesis by blast
qed

section \<open>Sequence ids\<close>

text \<open>
  C9. The id of a row is the number of rows in the table just before the row is
  inserted, when a live event is received and when the table is refreshed. So the
  first event accepted after a clear gets the id 0, and so does the first one after
  the next clear: ids are not unique over the life of the table.
\<close>

theorem sequence_id_is_row_count:
  "children (addEvent fmt v e) =
     children v @ [\<lparr>data_node = createEventData fmt v e, eventMetadata_node = eventMetadata e\<rparr>] \<and>
   id_data (createEventData fmt v e) = length (children v) \<and>
   (acceptEvent v e \<longrightarrow>
      onEventReceived fmt v \<lparr>data = e\<rparr> = addEvent fmt v e) \<and>
   (\<not> acceptEvent v e \<longrightarrow> onEventReceived fmt v \<lparr>data = e\<rparr> = v) \<and>
   map (id_data \<circ> data_node) (children (refreshView fmt v)) =
     [0..<length (children (refreshView fmt v))] \<and>
   children (clearView v) = [] \<and>
   (acceptEvent v e \<longrightarrow>
      map (id_data \<circ> data_node) (children (onEventReceived fmt (clearView v) \<lparr>data = e\<rparr>)) = [0]) \<and>
   (acceptEvent v e \<and> acceptEvent v e' \<longrightarrow>
      map (id_data \<circ> data_node)
        (children (onEventReceived fmt
           (clearView (onEventReceived fmt (clearView v) \<lparr>data = e\<rparr>)) \<lparr>data = e'\<rparr>)) = [0])"
proof -
  have acc: "\<And>w cs. acceptEvent (w\<lparr>children := cs\<rparr>) = acceptEvent w"
    by (rule ext) (simp add: acceptEvent_def)
  have ids: "map (id_data \<circ> data_node) (children (refreshView fmt v)) =
             [0..<length (children (refreshView fmt v))]"
    using map_zip_upt_fst [of "\<lambda>i. i" 0 "filter (acceptEvent v) (getEvents (model v) (serviceName v))"]
    by (simp add: refreshView_children comp_def case_prod_unfold)
  have one: "\<And>w x. acceptEvent w x \<Longrightarrow>
      map (id_data \<circ> data_node) (children (onEventReceived fmt (clearView w) \<lparr>data = x\<rparr>)) = [0]"
    by (simp add: onEventReceived_def clearView_def acc addEvent_children createEventData_id)
  have again: "acceptEvent v e' \<Longrightarrow> acceptEvent (onEventReceived fmt (clearView v) \<lparr>data = e\<rparr>) e'"
    by (simp add: onEventReceived_def clearView_def acc addEvent_def Let_def)
  show ?thesis
    using ids one [of v e] one [of "onEventReceived fmt (clearView v) \<lparr>data = e\<rparr>" e'] again
    by (simp add: addEvent_children createEventData_id onEventReceived_def clearView_def)
qed

theorem sequence_id_is_row_count_witness:
  "acceptEvent example_view example_event \<and>
   onEventReceived example_formatTimestamp example_view \<lparr>data = example_event\<rparr> =
     addEvent example_formatTimestamp example_view example_event \<and>
   map (id_data \<circ> data_node)
     (children (onEventReceived example_formatTimestamp (clearView example_view)
        \<lparr>data = example_event\<rparr>)) = [0] \<and>
   map (id_data \<circ> data_node)
     (children (onEventReceived example_formatTimestamp
        (clearView (onEventReceived example_formatTimestamp (clearView example_view)
           \<lparr>data = example_event\<rparr>)) \<lparr>data = example_event\<rparr>)) = [0] \<and>
   \<not> acceptEvent example_view example_other \<and>
   onEventReceived example_formatTimestamp example_view \<lparr>data = example_other\<rparr> = example_view"
proof -
  note t = sequence_id_is_row_count [of example_formatTimestamp example_view example_event example_event]
  note u = sequence_id_is_row_count [of example_formatTimestamp example_view example_other example_other]
  from t example_event_accepted
  have 1: "onEventReceived example_formatTimestamp example_view \<lparr>data = example_event\<rparr> =
     addEvent example_formatTimestamp example_view example_event" by blast
  from t example_event_accepted
  have 2: "map (id_data \<circ> data_node)
     (children (onEventReceived example_formatTimestamp (clearView example_view)
        \<lparr>data = example_event\<rparr>)) = [0]" by blast
  from t example_event_accepted
  have 3: "map (id_data \<circ> data_node)
     (children (onEventReceived example_formatTimestamp
        (clearView (onEventReceived example_formatTimestamp (clearView example_view)
           \<lparr>data = example_event\<rparr>)) \<lparr>data = example_event\<rparr>)) = [0]" by blast
  from u example_other_rejected
  have 4: "onEventReceived example_formatTimestamp example_view \<lparr>data = example_other\<rparr> = example_view"
    by blast
  show ?thesis
    using example_event_accepted 1 2 3 example_other_rejected 4 by (simp only: simp_thms)
qed

section \<open>Changes of the active origin\<close>

lemma createEventData_fields:
  "registrations w = registrations v \<Longrightarrow>
   (createEventData fmt w e)\<lparr>id_data := i\<rparr> =
     \<lparr>id_data = i, timestamp_data = fmt (timestamp e * 1000) True, origin_data = origin e,
      swSource = swSource (createEventData fmt v e), eventName_data = eventName e,
      instanceId_data = instanceId e\<rparr>"
  by (simp add: createEventData_def Let_def)

lemma refreshView_rows_closed:
  "children (refreshView fmt v) =
     map (\<lambda>(i, e).
            \<lparr>data_node =
               \<lparr>id_data = i, timestamp_data = fmt (timestamp e * 1000) True,
                origin_data = origin e, swSource = swSource (createEventData fmt v e),
                eventName_data = eventName e, instanceId_data = instanceId e\<rparr>,
             eventMetadata_node = eventMetadata e\<rparr>)
         (zip [0..<length (filter (acceptEvent v) (getEvents (model v) (serviceName v)))]
              (filter (acceptEvent v) (getEvents (model v) (serviceName v))))"
proof -
  have "registrations (clearView v) = registrations v"
    by (simp add: clearView_def)
  then have "\<And>i e. (createEventData fmt (clearView v) e)\<lparr>id_data := i\<rparr> =
     \<lparr>id_data = i, timestamp_data = fmt (timestamp e * 1000) True, origin_data = origin e,
      swSource = swSource (createEventData fmt v e), eventName_data = eventName e,
      instanceId_data = instanceId e\<rparr>"
    by (rule createEventData_fields)
  then show ?thesis
    using refreshView_children [of fmt v] by simp
qed

lemma example_stale_unchecked: "\<not> originCheckbox_checked example_stale"
  by (simp add: example_stale_def example_view_def)

lemma example_stale_accepted:
  "filter (acceptEvent example_stale) (getEvents (model example_stale) (serviceName example_stale)) =
     [example_other]"
  by (simp add: acceptEvent_def getEvents_def example_stale_def example_view_def
        example_event_def example_other_def substr_def Let_def)

text \<open>
  C5. When the active security origin changes and the origin checkbox is checked,
  the handler changes nothing and the rows stay as they are; when it is unchecked,
  the handler refreshes: whatever rows the table had are gone, and the rows are
  those of the accepted events of the model's buffer, in order, numbered from 0.
\<close>

theorem onOriginChanged_spec:
  "(originCheckbox_checked v \<longrightarrow>
      onOriginChanged fmt v = v \<and> children (onOriginChanged fmt v) = children v) \<and>
   (\<not> originCheckbox_checked v \<longrightarrow>
      onOriginChanged fmt v = refreshView fmt v \<and>
      onOriginChanged fmt v =
        addEvents fmt (clearView v)
          (filter (acceptEvent v) (getEvents (model v) (serviceName v))) \<and>
      (let accepted = filter (acceptEvent v) (getEvents (model v) (serviceName v));
           rows = children (onOriginChanged fmt v)
       in rows =
            map (\<lambda>(i, e).
                   \<lparr>data_node =
                      \<lparr>id_data = i, timestamp_data = fmt (timestamp e * 1000) True,
                       origin_data = origin e, swSource = swSource (createEventData fmt v e),
                       eventName_data = eventName e, instanceId_data = instanceId e\<rparr>,
                    eventMetadata_node = eventMetadata e\<rparr>)
                (zip [0..<length accepted] accepted) \<and>
          length rows = length accepted \<and>
          map (id_data \<circ> data_node) rows = [0..<length accepted] \<and>
          map (origin_data \<circ> data_node) rows = map origin accepted \<and>
          map eventMetadata_node rows = map eventMetadata accepted)) \<and>
   dispatch fmt v MainSecurityOriginChanged = onOriginChanged fmt v"
proof -
  define accepted where "accepted = filter (acceptEvent v) (getEvents (model v) (serviceName v))"
  have acc: "acceptEvent (clearView v) = acceptEvent v"
    by (rule ext) (simp add: acceptEvent_def clearView_def)
  have refresh: "refreshView fmt v = addEvents fmt (clearView v) accepted"
    unfolding accepted_def by (simp add: refreshView_def Let_def acc) (simp add: clearView_def)
  have rows: "children (refreshView fmt v) =
     map (\<lambda>(i, e).
            \<lparr>data_node =
               \<lparr>id_data = i, timestamp_data = fmt (timestamp e * 1000) True,
                origin_data = origin e, swSource = swSource (createEventData fmt v e),
                eventName_data = eventName e, instanceId_data = instanceId e\<rparr>,
             eventMetadata_node = eventMetadata e\<rparr>)
         (zip [0..<0 + length accepted] accepted)"
    unfolding accepted_def using refreshView_rows_closed [of fmt v] by simp
  have len: "length (children (refreshView fmt v)) = length accepted"
    by (simp add: rows)
  have ids: "map (id_data \<circ> data_node) (children (refreshView fmt v)) = [0..<length accepted]"
    using map_zip_upt_fst [of "\<lambda>i. i" 0 accepted] by (simp add: rows comp_def case_prod_unfold)
  have origins: "map (origin_data \<circ> data_node) (children (refreshView fmt v)) = map origin accepted"
    using map_zip_upt_snd [of origin 0 accepted] by (simp add: rows comp_def case_prod_unfold)
  have metadata: "map eventMetadata_node (children (refreshView fmt v)) = map eventMetadata accepted"
    using map_zip_upt_snd [of eventMetadata 0 accepted] by (simp add: rows comp_def case_prod_unfold)
  have rows': "children (refreshView fmt v) =
     map (\<lambda>(i, e).
            \<lparr>data_node =
               \<lparr>id_data = i, timestamp_data = fmt (timestamp e * 1000) True,
                origin_data = origin e, swSource = swSource (createEventData fmt v e),
                eventName_data = eventName e, instanceId_data = instanceId e\<rparr>,
             eventMetadata_node = eventMetadata e\<rparr>)
         (zip [0..<length accepted] accepted)"
    using rows by simp
  have when_checked: "originCheckbox_checked v \<Longrightarrow> onOriginChanged fmt v = v"
    by (simp add: onOriginChanged_def)
  have when_unchecked: "\<not> originCheckbox_checked v \<Longrightarrow> onOriginChanged fmt v = refreshView fmt v"
    by (simp add: onOriginChanged_def)
  show ?thesis
    unfolding Let_def accepted_def [symmetric]
    using when_checked when_unchecked refresh rows' len ids origins metadata by auto
qed

theorem onOriginChanged_spec_witness:
  "originCheckbox_checked (example_stale\<lparr>originCheckbox_checked := True\<rparr>) \<and>
   children (onOriginChanged example_formatTimestamp
               (example_stale\<lparr>originCheckbox_checked := True\<rparr>)) =
     [example_node, example_node] \<and>
   \<not> originCheckbox_checked example_stale \<and>
   children example_stale = [example_node, example_node] \<and>
   length (children (onOriginChanged example_formatTimestamp example_stale)) = 1 \<and>
   map (id_data \<circ> data_node) (children (onOriginChanged example_formatTimestamp example_stale)) =
     [0] \<and>
   map (origin_data \<circ> data_node) (children (onOriginChanged example_formatTimestamp example_stale)) =
     [''https://b.com/''] \<and>
   \<not> originCheckbox_checked example_view \<and>
   onOriginChanged example_formatTimestamp example_view =
     refreshView example_formatTimestamp example_view \<and>
   map (origin_data \<circ> data_node) (children (onOriginChanged example_formatTimestamp example_view)) =
     [''https://a.com/'', ''https://a.com/'']"
proof -
  let ?checked = "example_stale\<lparr>originCheckbox_checked := True\<rparr>"
  have c: "originCheckbox_checked ?checked" by simp
  have stale: "children example_stale = [example_node, example_node]"
    by (simp add: example_stale_def)
  from onOriginChanged_spec [of ?checked example_formatTimestamp] c
  have "children (onOriginChanged example_formatTimestamp ?checked) = children ?checked"
    by blast
  then have 1: "children (onOriginChanged example_formatTimestamp ?checked) =
      [example_node, example_node]"
    by (simp add: stale)
  note t = onOriginChanged_spec [of example_stale example_formatTimestamp,
      unfolded Let_def example_stale_accepted]
  from t example_stale_unchecked
  have 2: "length (children (onOriginChanged example_formatTimestamp example_stale)) =
      length [example_other]" by blast
  from t example_stale_unchecked
  have 3: "map (id_data \<circ> data_node) (children (onOriginChanged example_formatTimestamp example_stale)) =
      [0..<length [example_other]]" by blast
  from t example_stale_unchecked
  have 4: "map (origin_data \<circ> data_node)
        (children (onOriginChanged example_formatTimestamp example_stale)) =
      map origin [example_other]" by blast
  from onOriginChanged_spec [of example_view example_formatTimestamp] example_unchecked
  have 5: "onOriginChanged example_formatTimestamp example_view =
     refreshView example_formatTimestamp example_view" by blast
  have 6: "map (origin_data \<circ> data_node)
        (children (onOriginChanged example_formatTimestamp example_view)) =
      [''https://a.com/'', ''https://a.com/'']"
    using 5 example_refresh_origins by simp
  have len1: "length (children (onOriginChanged example_formatTimestamp example_stale)) = 1"
    using 2 by simp
  have ids1: "map (id_data \<circ> data_node)
        (children (onOriginChanged example_formatTimestamp example_stale)) = [0]"
    using 3 by simp
  have origins1: "map (origin_data \<circ> data_node)
        (children (onOriginChanged example_formatTimestamp example_stale)) = [''https://b.com/'']"
    using 4 by (simp add: example_other_def)
  show ?thesis
    using c 1 example_stale_unchecked stale len1 ids1 origins1 example_unchecked 5 6
    by (simp only: simp_thms)
qed

section \<open>Recording\<close>

lemma refreshView_frame: "refreshView fmt v = v\<lparr>children := children (refreshView fmt v)\<rparr>"
proof -
  have "refreshView fmt v = (clearView v)\<lparr>children := children (refreshView fmt v)\<rparr>"
    unfolding refreshView_def Let_def by (rule addEvents_frame)
  then show ?thesis by (simp add: clearView_def)
qed

lemma refreshView_toggled: "recordButton_toggled (refreshView fmt v) = recordButton_toggled v"
  by (subst refreshView_frame) simp

text \<open>
  C6. A click on the record button sends the model one request, to set recording to
  the negation of the button's toggled state for the bound service, and leaves the
  button as it was. Of all the notifications the view handles, only a change of the
  recording state for the bound service changes the button's toggled state, and it
  sets it to the notified state.
\<close>

theorem toggleRecording_spec:
  "toggleRecording v =
     v\<lparr>model := (model v)\<lparr>requests := requests (model v) @
                                [SetRecording (\<not> recordButton_toggled v) (serviceName v)]\<rparr>\<rparr> \<and>
   recordButton_toggled (toggleRecording v) = recordButton_toggled v \<and>
   dispatch fmt v RecordButtonClick = toggleRecording v \<and>
   requests (model (dispatch fmt v RecordButtonClick)) =
     requests (model v) @ [SetRecording (\<not> recordButton_toggled v) (serviceName v)] \<and>
   recordButton_toggled (dispatch fmt v RecordButtonClick) = recordButton_toggled v \<and>
   dispatch fmt v (RecordingStateChanged \<lparr>data = st\<rparr>) = onRecordingStateChanged v \<lparr>data = st\<rparr> \<and>
   (serviceName_state st = serviceName v \<longrightarrow>
      recordButton_toggled (dispatch fmt v (RecordingStateChanged \<lparr>data = st\<rparr>)) =
        isRecording st) \<and>
   (recordButton_toggled (dispatch fmt v n) \<noteq> recordButton_toggled v \<longrightarrow>
      (\<exists>state. n = RecordingStateChanged \<lparr>data = state\<rparr> \<and>
               serviceName_state state = serviceName v \<and>
               recordButton_toggled (dispatch fmt v n) = isRecording state)) \<and>
   (serviceName_state st = serviceName v \<longrightarrow>
      onRecordingStateChanged v \<lparr>data = st\<rparr> = v\<lparr>recordButton_toggled := isRecording st\<rparr>) \<and>
   (serviceName_state st \<noteq> serviceName v \<longrightarrow> onRecordingStateChanged v \<lparr>data = st\<rparr> = v)"
proof -
  have frame: "recordButton_toggled (dispatch fmt v n) \<noteq> recordButton_toggled v \<longrightarrow>
      (\<exists>state. n = RecordingStateChanged \<lparr>data = state\<rparr> \<and>
               serviceName_state state = serviceName v \<and>
               recordButton_toggled (dispatch fmt v n) = isRecording state)"
  proof (cases n)
    case (RecordingStateChanged event)
    obtain state where event: "event = \<lparr>data = state\<rparr>"
      by (cases event) simp
    show ?thesis
      unfolding RecordingStateChanged event
      by (simp add: onRecordingStateChanged_def Let_def)
  next
    case (BackgroundServiceEventReceived event)
    then show ?thesis
      by (simp add: onEventReceived_def Let_def addEvent_def)
  qed (simp_all add: toggleRecording_def refreshView_toggled clearView_def deleteEvents_def
         onOriginChanged_def)
  show ?thesis
    using frame
    by (simp add: toggleRecording_def setRecording_def onRecordingStateChanged_def Let_def)
qed

theorem toggleRecording_spec_witness:
  "recordButton_toggled (dispatch example_formatTimestamp example_view
      (RecordingStateChanged \<lparr>data = \<lparr>serviceName_state = ''push'', isRecording = True\<rparr>\<rparr>)) \<noteq>
     recordButton_toggled example_view \<and>
   serviceName_state \<lparr>serviceName_state = ''push'', isRecording = True\<rparr> = serviceName example_view \<and>
   onRecordingStateChanged example_view \<lparr>data = \<lparr>serviceName_state = ''push'', isRecording = True\<rparr>\<rparr> =
     example_view\<lparr>recordButton_toggled := True\<rparr> \<and>
   serviceName_state \<lparr>serviceName_state = ''sync'', isRecording = True\<rparr> \<noteq> serviceName example_view \<and>
   onRecordingStateChanged example_view \<lparr>data = \<lparr>serviceName_state = ''sync'', isRecording = True\<rparr>\<rparr> =
     example_view \<and>
   requests (model (toggleRecording example_view)) = [SetRecording True ''push''] \<and>
   requests (model (dispatch example_formatTimestamp example_view RecordButtonClick)) =
     [SetRecording True ''push''] \<and>
   recordButton_toggled (dispatch example_formatTimestamp example_view RecordButtonClick) =
     recordButton_toggled example_view \<and>
   recordButton_toggled (dispatch example_formatTimestamp example_view
      (RecordingStateChanged \<lparr>data = \<lparr>serviceName_state = ''push'', isRecording = True\<rparr>\<rparr>))"
proof -
  let ?push = "\<lparr>serviceName_state = ''push'', isRecording = True\<rparr>"
  let ?sync = "\<lparr>serviceName_state = ''sync'', isRecording = True\<rparr>"
  have 1: "recordButton_toggled (dispatch example_formatTimestamp example_view
      (RecordingStateChanged \<lparr>data = ?push\<rparr>)) \<noteq> recordButton_toggled example_view"
    by (simp add: onRecordingStateChanged_def example_view_def)
  have 2: "serviceName_state ?push = serviceName example_view" by (simp add: example_view_def)
  have 3: "serviceName_state ?sync \<noteq> serviceName example_view" by (simp add: example_view_def)
  note t = toggleRecording_spec [where v = example_view and fmt = example_formatTimestamp
      and n = "RecordingStateChanged \<lparr>data = ?push\<rparr>" and st = ?push]
  note u = toggleRecording_spec [where v = example_view and fmt = example_formatTimestamp
      and n = "RecordingStateChanged \<lparr>data = ?push\<rparr>" and st = ?sync]
  from t 2 have 4: "onRecordingStateChanged example_view \<lparr>data = ?push\<rparr> =
     example_view\<lparr>recordButton_toggled := isRecording ?push\<rparr>" by blast
  from u 3 have 5: "onRecordingStateChanged example_view \<lparr>data = ?sync\<rparr> = example_view" by blast
  from t have "toggleRecording example_view =
     example_view\<lparr>model := (model example_view)\<lparr>requests := requests (model example_view) @
        [SetRecording (\<not> recordButton_toggled example_view) (serviceName example_view)]\<rparr>\<rparr>"
    by blast
  then have 6: "requests (model (toggleRecording example_view)) = [SetRecording True ''push'']"
    by (simp add: example_view_def)
  from t have "requests (model (dispatch example_formatTimestamp example_view RecordButtonClick)) =
     requests (model example_view) @
       [SetRecording (\<not> recordButton_toggled example_view) (serviceName example_view)]"
    by blast
  then have 7: "requests (model (dispatch example_formatTimestamp example_view RecordButtonClick)) =
     [SetRecording True ''push'']"
    by (simp add: example_view_def)
  from t have 8: "recordButton_toggled (dispatch example_formatTimestamp example_view RecordButtonClick) =
     recordButton_toggled example_view"
    by blast
  from t 2 have "recordButton_toggled (dispatch example_formatTimestamp example_view
      (RecordingStateChanged \<lparr>data = ?push\<rparr>)) = isRecording ?push"
    by blast
  then have 9: "recordButton_toggled (dispatch example_formatTimestamp example_view
      (RecordingStateChanged \<lparr>data = ?push\<rparr>))"
    by simp
  show ?thesis using 1 2 3 4 5 6 7 8 9 by simp
qed

section \<open>Popover content\<close>

lemma appendChild_eq:
  "appendChild e c = Element (tagName e) (className e) (childNodes e @ [ElementNode c])"
  by (cases e) simp

lemma appendEntries_eq:
  "appendEntries container md =
     Element (tagName container) (className container)
       (childNodes container @
        map (\<lambda>entry. ElementNode (Element ''div'' ''background-service-metadata-entry''
               [ElementNode (set_textContent
                  (Element ''label'' ''background-service-metadata-key'' []) (key entry @ '': '')),
                ElementNode (set_textContent
                  (Element ''label'' ''background-service-metadata-value'' []) (value_meta entry))]))
          md)"
proof (induction md arbitrary: container)
  case Nil
  show ?case by simp
next
  case (Cons entry rest)
  show ?case
    by (simp add: Cons.IH Let_def createElementWithClass_def appendChild_eq del: set_textContent.simps)
qed

text \<open>
  C7. On a mouse-down the callback of the request appends the container to the
  popover's content. After what the style sheet added, the container holds one
  placeholder entry, "There is no metadata for this event", when the row has no
  metadata, and otherwise one entry for each metadata pair, in order, whose text is
  the key, then ": ", then the value.
\<close>

theorem createPopover_content:
  assumes "type_event ev = ''mousedown''"
  shows
  "let styled = appendStyle (createElementWithClass ''div'' ''background-service-popover-container'')
                  ''resources/backgroundServiceView.css'';
       placeholder = ElementNode (Element ''div'' ''background-service-metadata-entry''
                       [TextNode ''There is no metadata for this event'']);
       line = (\<lambda>entry. ElementNode (Element ''div'' ''background-service-metadata-entry''
               [ElementNode (set_textContent
                  (Element ''label'' ''background-service-metadata-key'' []) (key entry @ '': '')),
                ElementNode (set_textContent
                  (Element ''label'' ''background-service-metadata-value'' []) (value_meta entry))]));
       entries = (if eventMetadata_node self = [] then [placeholder]
                  else map line (eventMetadata_node self))
   in map_option (\<lambda>request. show_popover request contentElement)
        (createPopover appendStyle self ev) =
        Some (appendChild contentElement
                (Element (tagName styled) (className styled) (childNodes styled @ entries)), True) \<and>
      map textContent_node (map line (eventMetadata_node self)) =
        map (\<lambda>entry. key entry @ '': '' @ value_meta entry) (eventMetadata_node self) \<and>
      textContent_node placeholder = ''There is no metadata for this event''"
  using assms
  by (simp add: createPopover_def Let_def appendEntries_eq appendChild_eq createElementWithClass_def
        del: set_textContent.simps) simp

theorem createPopover_content_witness:
  "type_event \<lparr>type_event = ''mousedown'', target_boxInWindow = (0::nat)\<rparr> = ''mousedown'' \<and>
   map_option (\<lambda>request. show_popover request (Element ''div'' [] []))
     (createPopover example_appendStyle example_node
        \<lparr>type_event = ''mousedown'', target_boxInWindow = (0::nat)\<rparr>) =
     Some (Element ''div'' []
             [ElementNode (Element ''div'' ''background-service-popover-container''
                [ElementNode (Element ''style'' [] []),
                 ElementNode (Element ''div'' ''background-service-metadata-entry''
                   [ElementNode (Element ''label'' ''background-service-metadata-key''
                      [TextNode ''Tag: '']),
                    ElementNode (Element ''label'' ''background-service-metadata-value''
                      [TextNode ''news''])])])], True) \<and>
   map_option (\<lambda>request. show_popover request (Element ''div'' [] []))
     (createPopover example_appendStyle (example_node\<lparr>eventMetadata_node := []\<rparr>)
        \<lparr>type_event = ''mousedown'', target_boxInWindow = (0::nat)\<rparr>) =
     Some (Element ''div'' []
             [ElementNode (Element ''div'' ''background-service-popover-container''
                [ElementNode (Element ''style'' [] []),
                 ElementNode (Element ''div'' ''background-service-metadata-entry''
                   [TextNode ''There is no metadata for this event''])])], True)"
proof -
  let ?ev = "\<lparr>type_event = ''mousedown'', target_boxInWindow = (0::nat)\<rparr>"
  have h: "type_event ?ev = ''mousedown''" by simp
  show ?thesis
    using h
      createPopover_content [OF h, of example_appendStyle example_node "Element ''div'' [] []"]
      createPopover_content [OF h, of example_appendStyle "example_node\<lparr>eventMetadata_node := []\<rparr>"
        "Element ''div'' [] []"]
    by (simp add: Let_def example_appendStyle_def example_node_def createElementWithClass_def)
qed

text \<open>
  C8. For an event of any type other than mouse-down the popover builder returns
  no request, and so builds no content.
\<close>

theorem createPopover_other_types:
  "type_event ev \<noteq> ''mousedown'' \<Longrightarrow> createPopover appendStyle self ev = None"
  by (simp add: createPopover_def)

theorem createPopover_other_types_witness:
  "type_event \<lparr>type_event = ''mousemove'', target_boxInWindow = (0::nat)\<rparr> \<noteq> ''mousedown'' \<and>
   createPopover example_appendStyle example_node
     \<lparr>type_event = ''mousemove'', target_boxInWindow = (0::nat)\<rparr> = None"
proof -
  have h: "type_event \<lparr>type_event = ''mousemove'', target_boxInWindow = (0::nat)\<rparr> \<noteq> ''mousedown''"
    by simp
  from h createPopover_other_types [OF h] show ?thesis by blast
qed

end
